theory Spec2Isabelle
  imports Main
begin

section \<open>Python values and exceptions shared by the three notebooks\<close>

text \<open>
  The exceptions the modelled cells can raise. \<open>KeyError k\<close> is a failed dictionary
  lookup of key \<open>k\<close>, \<open>NameError n\<close> a name that no namespace binds, \<open>TypeError\<close> a
  subscript or call on a value that does not support it, \<open>JSONDecodeError\<close> what
  \<open>Response.json()\<close> raises on a body that is not JSON, \<open>ConnectionError\<close> a request
  that the transport could not complete, \<open>XGBoostError p\<close> what \<open>load_model\<close> raises
  when the file \<open>p\<close> cannot be read.
\<close>

datatype error =
    KeyError string
  | NameError string
  | AttributeError string
  | TypeError
  | JSONDecodeError
  | ConnectionError
  | XGBoostError string
  | NotFittedError

text \<open>
  A decoded JSON document, as \<open>json.loads\<close> builds it: an object is a Python dict,
  held here as an association list in insertion order. Numbers are integers only;
  floating-point numbers are outside this model.
\<close>

datatype json =
    JNull
  | JBool bool
  | JNum int
  | JStr string
  | JArr "json list"
  | JObj "(string \<times> json) list"

text \<open>\<open>v[k]\<close> with a string key: a dict looks the key up, every other value rejects it.\<close>

fun subscript :: "json \<Rightarrow> string \<Rightarrow> error + json" where
  "subscript (JObj kvs) k =
     (case map_of kvs k of None \<Rightarrow> Inl (KeyError k) | Some v \<Rightarrow> Inr v)"
| "subscript _ k = Inl TypeError"

text \<open>
  A replacement field \<open>{v}\<close> of an f-string: a \<open>str\<close> is inserted as it is; how any
  other value prints is the interpreter's business and is taken as the parameter
  \<open>fmt\<close>.
\<close>

fun py_format :: "(json \<Rightarrow> string) \<Rightarrow> json \<Rightarrow> string" where
  "py_format fmt (JStr s) = s"
| "py_format fmt v = fmt v"

section \<open>using\_mlflow\_rest\_api.ipynb\<close>

text \<open>
  The values the user fills in (\<open>"<>"\<close> in the notebook). \<open>grant_type\<close>,
  \<open>resource_scope\<close>, \<open>location\<close> and \<open>mlflow_api_path\<close> are fixed by the notebook.
\<close>

record settings =
  tenant_id :: string
  client_id :: string
  client_secret :: string
  subscription_id :: string
  resource_group :: string
  workspace_name :: string

definition grant_type :: string where
  "grant_type = ''client_credentials''"

definition resource_scope :: string where
  "resource_scope = ''https://management.azure.com''"

definition location :: string where
  "location = ''eastus''"

definition mlflow_api_path :: string where
  "mlflow_api_path = ''api/2.0/mlflow''"

definition mso_url :: "settings \<Rightarrow> string" where
  "mso_url c = ''https://login.microsoftonline.com/'' @ tenant_id c @ ''/oauth2/token?''"

definition mso_body :: "settings \<Rightarrow> string" where
  "mso_body c =
     ''grant_type='' @ grant_type @ ''&client_id='' @ client_id c
     @ ''&client_secret='' @ client_secret c @ ''&resource='' @ resource_scope"

definition azure_ml_mlflow_base :: "settings \<Rightarrow> string" where
  "azure_ml_mlflow_base c =
     ''https://'' @ location @ ''.api.azureml.ms/mlflow/v1.0/subscriptions/''
     @ subscription_id c @ ''/resourceGroups/'' @ resource_group c
     @ ''/providers/Microsoft.MachineLearningServices/workspaces/'' @ workspace_name c"

definition experiments_url :: "settings \<Rightarrow> string" where
  "experiments_url c =
     azure_ml_mlflow_base c @ ''/'' @ mlflow_api_path @ ''/experiments/list''"

text \<open>
  The two calls into \<open>requests\<close>, and what comes back: a status code and a body,
  which \<open>json()\<close> decodes (\<open>None\<close>: the body is not JSON).
\<close>

datatype request =
    POST string string
  | GET string "(string \<times> string) list"

record response =
  status_code :: nat
  body_json :: "json option"

fun is_post :: "request \<Rightarrow> bool" where
  "is_post (POST url body) = True"
| "is_post (GET url hdrs) = False"

definition response_json :: "response \<Rightarrow> error + json" where
  "response_json r = (case body_json r of None \<Rightarrow> Inl JSONDecodeError | Some j \<Rightarrow> Inr j)"

text \<open>
  The \<open>headers\<close> dict literal. The f-string evaluates \<open>token_data['token_type']\<close>
  first, then \<open>token_data['access_token']\<close>.
\<close>

definition build_headers ::
  "(json \<Rightarrow> string) \<Rightarrow> json \<Rightarrow> error + (string \<times> string) list" where
  "build_headers fmt token_data =
     (case subscript token_data ''token_type'' of
        Inl e \<Rightarrow> Inl e
      | Inr tt \<Rightarrow>
          (case subscript token_data ''access_token'' of
             Inl e \<Rightarrow> Inl e
           | Inr tok \<Rightarrow>
               Inr [(''Content-Type'', ''application/json''),
                    (''Authorization'', py_format fmt tt @ '' '' @ py_format fmt tok)]))"

text \<open>
  \<open>pd.DataFrame(data["experiments"])\<close>: the constructor is the library's and is the
  parameter \<open>df\<close>; the lookup is the notebook's.
\<close>

definition tabulate :: "(json \<Rightarrow> error + 't) \<Rightarrow> json \<Rightarrow> error + 't" where
  "tabulate df data =
     (case subscript data ''experiments'' of Inl e \<Rightarrow> Inl e | Inr v \<Rightarrow> df v)"

text \<open>
  The code cells in order, against a transport \<open>http\<close>. The result is the list of
  requests sent and either the exception that stopped the notebook or the table of the
  last cell.
\<close>

definition run_notebook ::
  "(request \<Rightarrow> error + response) \<Rightarrow> (json \<Rightarrow> string) \<Rightarrow> (json \<Rightarrow> error + 't)
     \<Rightarrow> settings \<Rightarrow> request list \<times> (error + 't)" where
  "run_notebook http fmt df c =
     (let post = POST (mso_url c) (mso_body c) in
      case http post of
        Inl e \<Rightarrow> ([post], Inl e)
      | Inr auth_response \<Rightarrow>
     (case response_json auth_response of
        Inl e \<Rightarrow> ([post], Inl e)
      | Inr token_data \<Rightarrow>
     (case build_headers fmt token_data of
        Inl e \<Rightarrow> ([post], Inl e)
      | Inr headers \<Rightarrow>
     (let get = GET (experiments_url c) headers in
      case http get of
        Inl e \<Rightarrow> ([post, get], Inl e)
      | Inr response \<Rightarrow>
     (case response_json response of
        Inl e \<Rightarrow> ([post, get], Inl e)
      | Inr data \<Rightarrow> ([post, get], tabulate df data))))))"

section \<open>Attach and detach a Synapse Spark pool\<close>

text \<open>The keyword arguments the cells pass to the SDK's entity constructors.\<close>

record UserAssignedIdentity =
  uai_resource_id :: string

record IdentityConfiguration =
  identity_type :: string
  user_assigned_identities :: "UserAssignedIdentity list option"

record SynapseSparkCompute =
  name :: string
  resource_id :: string
  identity :: "IdentityConfiguration option"

datatype sdk_call =
    begin_create_or_update SynapseSparkCompute
  | begin_delete string string

definition attach_pool :: "string \<Rightarrow> string \<Rightarrow> sdk_call" where
  "attach_pool synapse_name synapse_resource =
     begin_create_or_update
       \<lparr>name = synapse_name, resource_id = synapse_resource, identity = None\<rparr>"

definition attach_pool_system_assigned :: "string \<Rightarrow> string \<Rightarrow> sdk_call" where
  "attach_pool_system_assigned synapse_name synapse_resource =
     (let synapse_identity =
            \<lparr>identity_type = ''SystemAssigned'', user_assigned_identities = None\<rparr>
      in begin_create_or_update
           \<lparr>name = synapse_name, resource_id = synapse_resource,
            identity = Some synapse_identity\<rparr>)"

definition attach_pool_user_assigned :: "string \<Rightarrow> string \<Rightarrow> string \<Rightarrow> sdk_call" where
  "attach_pool_user_assigned synapse_name synapse_resource managed_id =
     (let synapse_identity =
            \<lparr>identity_type = ''UserAssigned'',
             user_assigned_identities = Some [\<lparr>uai_resource_id = managed_id\<rparr>]\<rparr>
      in begin_create_or_update
           \<lparr>name = synapse_name, resource_id = synapse_resource,
            identity = Some synapse_identity\<rparr>)"

definition detach_pool :: "string \<Rightarrow> sdk_call" where
  "detach_pool synapse_name = begin_delete synapse_name ''Detach''"

section \<open>logging\_model\_with\_mlflow.ipynb\<close>

subsection \<open>Names, objects and files\<close>

text \<open>
  A Python process holds objects at addresses; a name of a module's namespace is bound
  to an object, or to one of the classes and functions that occur in the notebook:
  the class \<open>XGBClassifier\<close>, the classes \<open>ModelWrapper\<close> and \<open>MyModel\<close>, the function
  \<open>_load_pyfunc\<close>. A name that neither the function's locals nor its module's namespace
  binds (no builtin has any of the names used below) raises \<open>NameError\<close>. The file
  system outlives the process.

  An \<open>XGBClassifier\<close> object is its booster: \<open>None\<close> until \<open>fit\<close> or \<open>load_model\<close>
  has set it. Type \<open>'b\<close> is what a model file stores.
\<close>

type_synonym addr = nat

datatype pyval =
    Obj addr
  | XGBClassifier_class
  | ModelWrapper_class
  | MyModel_class
  | load_pyfunc_function

type_synonym namespace = "string \<rightharpoonup> pyval"

record 'b process =
  heap :: "addr \<rightharpoonup> 'b option"
  next_addr :: addr
  files :: "string \<rightharpoonup> 'b"

definition fresh_process :: "(string \<rightharpoonup> 'b) \<Rightarrow> 'b process" where
  "fresh_process fs = \<lparr>heap = Map.empty, next_addr = 0, files = fs\<rparr>"

subsection \<open>The parts of xgboost the cells call\<close>

text \<open>\<open>XGBClassifier(use_label_encoder=False, eval_metric="logloss")\<close> on the class itself.\<close>

definition new_XGBClassifier :: "'b process \<Rightarrow> addr \<times> 'b process" where
  "new_XGBClassifier st =
     (next_addr st,
      st\<lparr>heap := (heap st)(next_addr st \<mapsto> None), next_addr := Suc (next_addr st)\<rparr>)"

text \<open>
  The same call through the name \<open>XGBClassifier\<close> of a namespace \<open>g\<close>. Bound to
  anything but the class, the call raises \<open>TypeError\<close>: a classifier object is not
  callable, and neither \<open>ModelWrapper\<close>, \<open>MyModel\<close> nor \<open>_load_pyfunc\<close> takes the two
  keyword arguments.
\<close>

definition call_XGBClassifier :: "namespace \<Rightarrow> 'b process \<Rightarrow> error + addr \<times> 'b process" where
  "call_XGBClassifier g st =
     (case g ''XGBClassifier'' of
        None \<Rightarrow> Inl (NameError ''XGBClassifier'')
      | Some XGBClassifier_class \<Rightarrow> Inr (new_XGBClassifier st)
      | Some _ \<Rightarrow> Inl TypeError)"

text \<open>\<open>fit\<close> leaves the trained booster in the object; training itself is the library's.\<close>

definition fit :: "addr \<Rightarrow> 'b \<Rightarrow> 'b process \<Rightarrow> 'b process" where
  "fit a trained st = st\<lparr>heap := (heap st)(a \<mapsto> Some trained)\<rparr>"

definition save_model :: "addr \<Rightarrow> string \<Rightarrow> 'b process \<Rightarrow> error + 'b process" where
  "save_model a path st =
     (case heap st a of
        None \<Rightarrow> Inl (AttributeError ''save_model'')
      | Some None \<Rightarrow> Inl NotFittedError
      | Some (Some b) \<Rightarrow> Inr (st\<lparr>files := (files st)(path \<mapsto> b)\<rparr>))"

definition load_model :: "addr \<Rightarrow> string \<Rightarrow> 'b process \<Rightarrow> error + 'b process" where
  "load_model a path st =
     (case heap st a of
        None \<Rightarrow> Inl (AttributeError ''load_model'')
      | Some old \<Rightarrow>
          (case files st path of
             None \<Rightarrow> Inl (XGBoostError path)
           | Some b \<Rightarrow> Inr (st\<lparr>heap := (heap st)(a \<mapsto> Some b)\<rparr>)))"

text \<open>
  \<open>predict_proba\<close>: what the library computes from a booster (or from none) and the
  data is the parameter \<open>pp\<close>.
\<close>

definition predict_proba ::
  "('b option \<Rightarrow> 'd \<Rightarrow> error + 'o) \<Rightarrow> addr \<Rightarrow> 'd \<Rightarrow> 'b process \<Rightarrow> error + 'o" where
  "predict_proba pp a data st =
     (case heap st a of
        None \<Rightarrow> Inl (AttributeError ''predict_proba'')
      | Some bo \<Rightarrow> pp bo data)"

subsection \<open>The wrapper classes of the notebook\<close>

text \<open>
  Both \<open>ModelWrapper\<close> classes keep the wrapped model in the attribute \<open>_model\<close>; the
  second class has no \<open>__init__\<close>, so the attribute may be unset.
\<close>

record ModelWrapper =
  ModelWrapper_model :: "addr option"

record PythonModelContext =
  artifacts :: "string \<rightharpoonup> string"

record MyModel =
  MyModel_model :: addr

definition ModelWrapper_init :: "addr \<Rightarrow> ModelWrapper" where
  "ModelWrapper_init model = \<lparr>ModelWrapper_model = Some model\<rparr>"

definition ModelWrapper_new :: ModelWrapper where
  "ModelWrapper_new = \<lparr>ModelWrapper_model = None\<rparr>"

definition ModelWrapper_predict ::
  "('b option \<Rightarrow> 'd \<Rightarrow> error + 'o) \<Rightarrow> ModelWrapper \<Rightarrow> PythonModelContext \<Rightarrow> 'd
     \<Rightarrow> 'b process \<Rightarrow> error + 'o" where
  "ModelWrapper_predict pp self context data st =
     (case ModelWrapper_model self of
        None \<Rightarrow> Inl (AttributeError ''_model'')
      | Some a \<Rightarrow> predict_proba pp a data st)"

text \<open>
  \<open>load_context\<close> of the artifacts variant, in the namespace \<open>g\<close> of the module the
  class lives in. \<open>XGBClassifier\<close> is imported inside the method. The second statement
  is \<open>model.load_model(context.artifacts["model"])\<close>: \<open>model\<close> is no local, so it is
  looked up in \<open>g\<close>, before the argument is evaluated. Should the name be bound to
  the class \<open>XGBClassifier\<close>, the argument is evaluated and the call of the plain
  function \<open>load_model\<close> then lacks an argument; the other classes and the function
  have no attribute \<open>load_model\<close>.
\<close>

definition load_context ::
  "namespace \<Rightarrow> ModelWrapper \<Rightarrow> PythonModelContext \<Rightarrow> 'b process
     \<Rightarrow> error + ModelWrapper \<times> 'b process" where
  "load_context g self context st =
     (let (a, st1) = new_XGBClassifier st;
          self1 = self\<lparr>ModelWrapper_model := Some a\<rparr>
      in case g ''model'' of
           None \<Rightarrow> Inl (NameError ''model'')
         | Some (Obj m) \<Rightarrow>
             (case artifacts context ''model'' of
                None \<Rightarrow> Inl (KeyError ''model'')
              | Some p \<Rightarrow>
                  (case load_model m p st1 of
                     Inl e \<Rightarrow> Inl e
                   | Inr st2 \<Rightarrow> Inr (self1, st2)))
         | Some XGBClassifier_class \<Rightarrow>
             (case artifacts context ''model'' of
                None \<Rightarrow> Inl (KeyError ''model'')
              | Some p \<Rightarrow> Inl TypeError)
         | Some _ \<Rightarrow> Inl (AttributeError ''load_model''))"

subsection \<open>loader\_module.py\<close>

definition MyModel_init :: "addr \<Rightarrow> MyModel" where
  "MyModel_init model = \<lparr>MyModel_model = model\<rparr>"

definition MyModel_predict ::
  "('b option \<Rightarrow> 'd \<Rightarrow> error + 'o) \<Rightarrow> MyModel \<Rightarrow> 'd \<Rightarrow> 'b process \<Rightarrow> error + 'o" where
  "MyModel_predict pp self data st = predict_proba pp (MyModel_model self) data st"

text \<open>
  \<open>_load_pyfunc\<close>, in the namespace \<open>g\<close> of its module. It imports \<open>os\<close> only;
  \<open>XGBClassifier\<close> is looked up in \<open>g\<close>. \<open>os.path.abspath\<close> is the parameter
  \<open>abspath\<close>. Here \<open>model\<close> is a local.
\<close>

definition load_pyfunc ::
  "namespace \<Rightarrow> (string \<Rightarrow> string) \<Rightarrow> string \<Rightarrow> 'b process \<Rightarrow> error + MyModel \<times> 'b process" where
  "load_pyfunc g abspath data_path st =
     (case call_XGBClassifier g st of
        Inl e \<Rightarrow> Inl e
      | Inr (model, st1) \<Rightarrow>
          (case load_model model (abspath data_path) st1 of
             Inl e \<Rightarrow> Inl e
           | Inr st2 \<Rightarrow> Inr (MyModel_init model, st2)))"

text \<open>
  What the file written by \<open>%%writefile loader_module.py\<close> binds at top level: the
  class and the function, and nothing else (it has no import statement).
\<close>

definition loader_module_globals :: namespace where
  "loader_module_globals =
     [''MyModel'' \<mapsto> MyModel_class, ''_load_pyfunc'' \<mapsto> load_pyfunc_function]"

subsection \<open>The logging cells\<close>

text \<open>
  The notebook's own namespace when a logging cell starts: the cell has imported
  \<open>XGBClassifier\<close>, and an earlier cell defined \<open>ModelWrapper\<close>.
\<close>

definition notebook_globals :: namespace where
  "notebook_globals =
     [''XGBClassifier'' \<mapsto> XGBClassifier_class, ''ModelWrapper'' \<mapsto> ModelWrapper_class]"

text \<open>
  The statements the two last logging cells share: build the classifier, \<open>fit\<close> it,
  bind it to the module-level name \<open>model\<close>, and \<open>save_model("xgb.model")\<close>. Only the
  bindings that the loaders look up are kept in the namespace.
\<close>

definition model_path :: string where
  "model_path = ''xgb.model''"

definition logging_cell ::
  "namespace \<Rightarrow> 'b \<Rightarrow> 'b process \<Rightarrow> error + namespace \<times> 'b process" where
  "logging_cell g trained st =
     (case call_XGBClassifier g st of
        Inl e \<Rightarrow> Inl e
      | Inr (model, st1) \<Rightarrow>
          (case save_model model model_path (fit model trained st1) of
             Inl e \<Rightarrow> Inl e
           | Inr st2 \<Rightarrow> Inr (g(''model'' \<mapsto> Obj model), st2)))"

text \<open>The \<open>artifacts\<close> dictionary of the first of the two cells.\<close>

definition logged_artifacts :: "string \<rightharpoonup> string" where
  "logged_artifacts = [''model'' \<mapsto> model_path]"

section \<open>Concrete inputs\<close>

definition example_settings :: settings where
  "example_settings =
     \<lparr>tenant_id = ''t'', client_id = ''app'', client_secret = ''s3cret'',
      subscription_id = ''sub'', resource_group = ''rg'', workspace_name = ''ws''\<rparr>"

definition token_reply :: response where
  "token_reply =
     \<lparr>status_code = 200,
      body_json =
        Some (JObj [(''token_type'', JStr ''Bearer''), (''access_token'', JStr ''abc'')])\<rparr>"

definition oauth_error_reply :: response where
  "oauth_error_reply =
     \<lparr>status_code = 401, body_json = Some (JObj [(''error'', JStr ''invalid_client'')])\<rparr>"

definition experiments_reply :: response where
  "experiments_reply =
     \<lparr>status_code = 200,
      body_json =
        Some (JObj [(''experiments'', JArr [JObj [(''name'', JStr ''Default'')]])])\<rparr>"

definition empty_reply :: response where
  "empty_reply = \<lparr>status_code = 200, body_json = Some (JObj [])\<rparr>"

text \<open>A transport that answers the POST with \<open>a\<close> and the GET with \<open>b\<close>.\<close>

definition serve :: "response \<Rightarrow> response \<Rightarrow> request \<Rightarrow> error + response" where
  "serve a b q = (if is_post q then Inr a else Inr b)"

text \<open>
  A stand-in for the library's inference, on boosters and data that are numbers: a
  classifier without a booster refuses to predict.
\<close>

definition toy_proba :: "nat option \<Rightarrow> nat \<Rightarrow> error + nat" where
  "toy_proba bo d = (case bo of None \<Rightarrow> Inl NotFittedError | Some b \<Rightarrow> Inr (b + d))"

text \<open>The state a logging cell leaves behind when the fit produced booster 5.\<close>

definition logged_globals :: namespace where
  "logged_globals = notebook_globals(''model'' \<mapsto> Obj 0)"

definition logged_process :: "nat process" where
  "logged_process =
     \<lparr>heap = [0 \<mapsto> Some 5], next_addr = 1, files = [''xgb.model'' \<mapsto> 5]\<rparr>"

section \<open>The REST notebook\<close>

lemma post_only_once:
  "filter is_post (fst (run_notebook http fmt df c)) = [POST (mso_url c) (mso_body c)]"
  by (simp add: run_notebook_def Let_def split: sum.splits)

lemma build_headers_strings:
  "map_of kvs ''token_type'' = Some (JStr tt) \<Longrightarrow> map_of kvs ''access_token'' = Some (JStr tok)
   \<Longrightarrow> build_headers fmt (JObj kvs) =
        Inr [(''Content-Type'', ''application/json''), (''Authorization'', tt @ '' '' @ tok)]"
  by (simp add: build_headers_def)

lemma build_headers_missing:
  assumes "''token_type'' \<notin> fst ` set kvs \<or> ''access_token'' \<notin> fst ` set kvs"
  shows "build_headers fmt (JObj kvs) =
           Inl (KeyError (if ''token_type'' \<notin> fst ` set kvs then ''token_type''
                          else ''access_token''))"
proof (cases "''token_type'' \<in> fst ` set kvs")
  case False
  then have "map_of kvs ''token_type'' = None"
    by (simp add: map_of_eq_None_iff)
  with False show ?thesis by (simp add: build_headers_def)
next
  case True
  then obtain v where v: "map_of kvs ''token_type'' = Some v"
    by (metis map_of_eq_None_iff not_Some_eq)
  from True assms have "map_of kvs ''access_token'' = None"
    by (simp add: map_of_eq_None_iff)
  with True v show ?thesis by (simp add: build_headers_def)
qed

text \<open>Once the token request has been answered with JSON, the rest of the run.\<close>

lemma run_after_auth:
  assumes "http (POST (mso_url c) (mso_body c)) = Inr r"
    and "body_json r = Some td"
  shows "run_notebook http fmt df c =
     (case build_headers fmt td of
        Inl e \<Rightarrow> ([POST (mso_url c) (mso_body c)], Inl e)
      | Inr h \<Rightarrow>
          ([POST (mso_url c) (mso_body c), GET (experiments_url c) h],
           case http (GET (experiments_url c) h) of
             Inl e \<Rightarrow> Inl e
           | Inr r2 \<Rightarrow> (case response_json r2 of Inl e \<Rightarrow> Inl e | Inr d \<Rightarrow> tabulate df d)))"
  using assms
  by (simp add: run_notebook_def Let_def response_json_def split: sum.splits option.splits)

lemma status_ignored:
  "run_notebook (\<lambda>q. map_sum id (\<lambda>r. r\<lparr>status_code := f q\<rparr>) (http q)) fmt df c
     = run_notebook http fmt df c"
  by (simp add: run_notebook_def Let_def response_json_def split: sum.splits option.splits)

lemma tabulate_missing:
  assumes "''experiments'' \<notin> fst ` set kvs"
  shows "tabulate df (JObj kvs) = Inl (KeyError ''experiments'')"
proof -
  from assms have "map_of kvs ''experiments'' = None"
    by (simp add: map_of_eq_None_iff)
  then show ?thesis by (simp add: tabulate_def)
qed

text \<open>
  C6. Whatever the transport answers, the run sends exactly one POST, to \<open>mso_url\<close>,
  and its body is the four fields \<open>grant_type\<close> (= \<open>client_credentials\<close>), \<open>client_id\<close>,
  \<open>client_secret\<close> and \<open>resource\<close>, joined as written in the cell. When the answer is a
  JSON object whose \<open>token_type\<close> and \<open>access_token\<close> are the strings \<open>tt\<close> and \<open>tok\<close>,
  the \<open>Authorization\<close> header is \<open>tt\<close>, a space, \<open>tok\<close>, and the next request carries it.
\<close>

theorem token_exchange_shape:
  "filter is_post (fst (run_notebook http fmt df c)) = [POST (mso_url c) (mso_body c)]
   \<and> mso_body c =
       ''grant_type=client_credentials&client_id='' @ client_id c
       @ ''&client_secret='' @ client_secret c @ ''&resource=https://management.azure.com''
   \<and> (http (POST (mso_url c) (mso_body c)) = Inr r \<and> body_json r = Some (JObj kvs)
        \<and> map_of kvs ''token_type'' = Some (JStr tt)
        \<and> map_of kvs ''access_token'' = Some (JStr tok)
      \<longrightarrow> build_headers fmt (JObj kvs) =
            Inr [(''Content-Type'', ''application/json''), (''Authorization'', tt @ '' '' @ tok)]
          \<and> fst (run_notebook http fmt df c) =
            [POST (mso_url c) (mso_body c),
             GET (experiments_url c)
               [(''Content-Type'', ''application/json''),
                (''Authorization'', tt @ '' '' @ tok)]])"
proof (intro conjI impI)
  show "filter is_post (fst (run_notebook http fmt df c)) = [POST (mso_url c) (mso_body c)]"
    by (rule post_only_once)
  show "mso_body c =
       ''grant_type=client_credentials&client_id='' @ client_id c
       @ ''&client_secret='' @ client_secret c @ ''&resource=https://management.azure.com''"
    by (simp add: mso_body_def grant_type_def resource_scope_def)
next
  assume h: "http (POST (mso_url c) (mso_body c)) = Inr r \<and> body_json r = Some (JObj kvs)
        \<and> map_of kvs ''token_type'' = Some (JStr tt)
        \<and> map_of kvs ''access_token'' = Some (JStr tok)"
  then show b: "build_headers fmt (JObj kvs) =
            Inr [(''Content-Type'', ''application/json''), (''Authorization'', tt @ '' '' @ tok)]"
    by (simp add: build_headers_strings)
  from h have "http (POST (mso_url c) (mso_body c)) = Inr r" and "body_json r = Some (JObj kvs)"
    by simp_all
  from run_after_auth [of http c r "JObj kvs" fmt df, OF this] b
  show "fst (run_notebook http fmt df c) =
            [POST (mso_url c) (mso_body c),
             GET (experiments_url c)
               [(''Content-Type'', ''application/json''),
                (''Authorization'', tt @ '' '' @ tok)]]"
    by simp
qed

theorem token_exchange_shape_witness:
  "fst (run_notebook (serve token_reply experiments_reply) (\<lambda>v. []) Inr example_settings) =
     [POST ''https://login.microsoftonline.com/t/oauth2/token?''
        ''grant_type=client_credentials&client_id=app&client_secret=s3cret&resource=https://management.azure.com'',
      GET ''https://eastus.api.azureml.ms/mlflow/v1.0/subscriptions/sub/resourceGroups/rg/providers/Microsoft.MachineLearningServices/workspaces/ws/api/2.0/mlflow/experiments/list''
        [(''Content-Type'', ''application/json''), (''Authorization'', ''Bearer abc'')]]"
  using token_exchange_shape [of "serve token_reply experiments_reply" "\<lambda>v. []" Inr
      example_settings token_reply
      "[(''token_type'', JStr ''Bearer''), (''access_token'', JStr ''abc'')]" "''Bearer''" "''abc''"]
  by (simp add: serve_def token_reply_def example_settings_def mso_url_def experiments_url_def
      azure_ml_mlflow_base_def location_def mlflow_api_path_def)

text \<open>
  C7. The URL of the GET is the path rooted at the tracking base URL, with the fixed
  suffix \<open>api/2.0/mlflow\<close> and then \<open>/experiments/list\<close> below it: the f-string of
  the cell, which puts the path separator between base URL and suffix. When the token
  request was answered and the headers could be built, this GET is the only request
  besides the POST; its answer being a JSON object with the list field \<open>experiments\<close>,
  the notebook's result is what the table constructor makes of that field.
\<close>

theorem tracking_request_shape:
  "experiments_url c =
     azure_ml_mlflow_base c @ ''/'' @ ''api/2.0/mlflow'' @ ''/experiments/list''
   \<and> (http (POST (mso_url c) (mso_body c)) = Inr r \<and> body_json r = Some td
        \<and> build_headers fmt td = Inr h
        \<and> http (GET (experiments_url c) h) = Inr r2 \<and> body_json r2 = Some (JObj kvs)
        \<and> map_of kvs ''experiments'' = Some v
      \<longrightarrow> filter (\<lambda>q. \<not> is_post q) (fst (run_notebook http fmt df c))
            = [GET (experiments_url c) h]
          \<and> snd (run_notebook http fmt df c) = df v)"
proof (intro conjI impI)
  show "experiments_url c =
     azure_ml_mlflow_base c @ ''/'' @ ''api/2.0/mlflow'' @ ''/experiments/list''"
    by (simp add: experiments_url_def mlflow_api_path_def)
next
  assume h: "http (POST (mso_url c) (mso_body c)) = Inr r \<and> body_json r = Some td
        \<and> build_headers fmt td = Inr h
        \<and> http (GET (experiments_url c) h) = Inr r2 \<and> body_json r2 = Some (JObj kvs)
        \<and> map_of kvs ''experiments'' = Some v"
  then have "http (POST (mso_url c) (mso_body c)) = Inr r" and "body_json r = Some td"
    by simp_all
  note run = run_after_auth [of http c r td fmt df, OF this]
  from run h show "filter (\<lambda>q. \<not> is_post q) (fst (run_notebook http fmt df c))
            = [GET (experiments_url c) h]"
    by simp
  from run h show "snd (run_notebook http fmt df c) = df v"
    by (simp add: response_json_def tabulate_def)
qed

theorem tracking_request_shape_witness:
  "filter (\<lambda>q. \<not> is_post q)
     (fst (run_notebook (serve token_reply experiments_reply) (\<lambda>v. []) Inr example_settings))
     = [GET ''https://eastus.api.azureml.ms/mlflow/v1.0/subscriptions/sub/resourceGroups/rg/providers/Microsoft.MachineLearningServices/workspaces/ws/api/2.0/mlflow/experiments/list''
          [(''Content-Type'', ''application/json''), (''Authorization'', ''Bearer abc'')]]
   \<and> snd (run_notebook (serve token_reply experiments_reply) (\<lambda>v. []) Inr example_settings)
     = Inr (JArr [JObj [(''name'', JStr ''Default'')]])"
  using tracking_request_shape [of example_settings "serve token_reply experiments_reply"
      token_reply "JObj [(''token_type'', JStr ''Bearer''), (''access_token'', JStr ''abc'')]"
      "\<lambda>v. []" "[(''Content-Type'', ''application/json''), (''Authorization'', ''Bearer abc'')]"
      experiments_reply "[(''experiments'', JArr [JObj [(''name'', JStr ''Default'')]])]"
      "JArr [JObj [(''name'', JStr ''Default'')]]" Inr]
  by (simp add: serve_def token_reply_def experiments_reply_def build_headers_def
      example_settings_def experiments_url_def azure_ml_mlflow_base_def location_def
      mlflow_api_path_def)

text \<open>
  C9. No status code has any effect on the run. When the token request is answered
  with a JSON object that lacks \<open>token_type\<close> or \<open>access_token\<close>, building the headers
  raises \<open>KeyError\<close> for the first of the two that is missing, and the run ends there:
  the POST is the only request sent and the \<open>KeyError\<close> is the result.
\<close>

theorem token_lookup_unguarded:
  "run_notebook (\<lambda>q. map_sum id (\<lambda>r. r\<lparr>status_code := f q\<rparr>) (http q)) fmt df c
     = run_notebook http fmt df c
   \<and> (http (POST (mso_url c) (mso_body c)) = Inr r \<and> body_json r = Some (JObj kvs)
        \<and> (''token_type'' \<notin> fst ` set kvs \<or> ''access_token'' \<notin> fst ` set kvs)
      \<longrightarrow> build_headers fmt (JObj kvs) =
            Inl (KeyError (if ''token_type'' \<notin> fst ` set kvs then ''token_type''
                           else ''access_token''))
          \<and> run_notebook http fmt df c =
            ([POST (mso_url c) (mso_body c)],
             Inl (KeyError (if ''token_type'' \<notin> fst ` set kvs then ''token_type''
                            else ''access_token''))))"
proof (intro conjI impI)
  show "run_notebook (\<lambda>q. map_sum id (\<lambda>r. r\<lparr>status_code := f q\<rparr>) (http q)) fmt df c
     = run_notebook http fmt df c"
    by (rule status_ignored)
next
  assume h: "http (POST (mso_url c) (mso_body c)) = Inr r \<and> body_json r = Some (JObj kvs)
        \<and> (''token_type'' \<notin> fst ` set kvs \<or> ''access_token'' \<notin> fst ` set kvs)"
  then have miss: "''token_type'' \<notin> fst ` set kvs \<or> ''access_token'' \<notin> fst ` set kvs"
    by simp
  show b: "build_headers fmt (JObj kvs) =
            Inl (KeyError (if ''token_type'' \<notin> fst ` set kvs then ''token_type''
                           else ''access_token''))"
    by (rule build_headers_missing [OF miss])
  from h have "http (POST (mso_url c) (mso_body c)) = Inr r" and "body_json r = Some (JObj kvs)"
    by simp_all
  from run_after_auth [of http c r "JObj kvs" fmt df, OF this]
  show "run_notebook http fmt df c =
            ([POST (mso_url c) (mso_body c)],
             Inl (KeyError (if ''token_type'' \<notin> fst ` set kvs then ''token_type''
                            else ''access_token'')))"
    by (simp only: b sum.case)
qed

theorem token_lookup_unguarded_witness:
  "run_notebook (serve oauth_error_reply experiments_reply) (\<lambda>v. []) Inr example_settings =
     ([POST (mso_url example_settings) (mso_body example_settings)],
      Inl (KeyError ''token_type''))"
  using token_lookup_unguarded [of "\<lambda>q. 0" "serve oauth_error_reply experiments_reply"
      "\<lambda>v. []" Inr example_settings oauth_error_reply "[(''error'', JStr ''invalid_client'')]"]
  by (simp add: serve_def oauth_error_reply_def)

text \<open>
  C10. When the answer to the GET is a JSON object without the key \<open>experiments\<close>,
  whatever its status code, the last cell raises \<open>KeyError\<close> for that key; the table
  constructor is not reached, so no table, empty or not, is the result.
\<close>

theorem experiments_lookup_unguarded:
  "(''experiments'' \<notin> fst ` set kvs
      \<longrightarrow> tabulate df (JObj kvs) = Inl (KeyError ''experiments''))
   \<and> (http (POST (mso_url c) (mso_body c)) = Inr r \<and> body_json r = Some td
        \<and> build_headers fmt td = Inr h
        \<and> http (GET (experiments_url c) h) = Inr r2 \<and> body_json r2 = Some (JObj kvs)
        \<and> ''experiments'' \<notin> fst ` set kvs
      \<longrightarrow> snd (run_notebook http fmt df c) = Inl (KeyError ''experiments''))"
proof (intro conjI impI)
  assume "''experiments'' \<notin> fst ` set kvs"
  then show "tabulate df (JObj kvs) = Inl (KeyError ''experiments'')"
    by (rule tabulate_missing)
next
  assume h: "http (POST (mso_url c) (mso_body c)) = Inr r \<and> body_json r = Some td
        \<and> build_headers fmt td = Inr h
        \<and> http (GET (experiments_url c) h) = Inr r2 \<and> body_json r2 = Some (JObj kvs)
        \<and> ''experiments'' \<notin> fst ` set kvs"
  then have "http (POST (mso_url c) (mso_body c)) = Inr r" and "body_json r = Some td"
    by simp_all
  note run = run_after_auth [of http c r td fmt df, OF this]
  from h have "tabulate df (JObj kvs) = Inl (KeyError ''experiments'')"
    by (simp add: tabulate_missing)
  with run h show "snd (run_notebook http fmt df c) = Inl (KeyError ''experiments'')"
    by (simp add: response_json_def)
qed

theorem experiments_lookup_unguarded_witness:
  "snd (run_notebook (serve token_reply empty_reply) (\<lambda>v. []) (\<lambda>v. Inr ([]::json list))
          example_settings)
     = Inl (KeyError ''experiments'')"
  using experiments_lookup_unguarded [of "[]" "\<lambda>v. Inr ([]::json list)"
      "serve token_reply empty_reply" example_settings token_reply
      "JObj [(''token_type'', JStr ''Bearer''), (''access_token'', JStr ''abc'')]" "\<lambda>v. []"
      "[(''Content-Type'', ''application/json''), (''Authorization'', ''Bearer abc'')]"
      empty_reply]
  by (simp add: serve_def token_reply_def empty_reply_def build_headers_def)

section \<open>The Synapse notebook\<close>

text \<open>
  C8. Each of the three attach cells hands \<open>begin_create_or_update\<close> a descriptor with
  the pool name and the resource id it was given; the identity is absent in the first
  cell and present in the two identity cells. The detach cell calls \<open>begin_delete\<close>
  with the pool name and the action \<open>Detach\<close>.
\<close>

theorem compute_request_shape:
  "attach_pool n r = begin_create_or_update \<lparr>name = n, resource_id = r, identity = None\<rparr>
   \<and> attach_pool_system_assigned n r =
       begin_create_or_update
         \<lparr>name = n, resource_id = r,
          identity = Some \<lparr>identity_type = ''SystemAssigned'', user_assigned_identities = None\<rparr>\<rparr>
   \<and> attach_pool_user_assigned n r u =
       begin_create_or_update
         \<lparr>name = n, resource_id = r,
          identity = Some \<lparr>identity_type = ''UserAssigned'',
                          user_assigned_identities = Some [\<lparr>uai_resource_id = u\<rparr>]\<rparr>\<rparr>
   \<and> detach_pool n = begin_delete n ''Detach''"
  by (simp add: attach_pool_def attach_pool_system_assigned_def attach_pool_user_assigned_def
      detach_pool_def)

section \<open>The model-logging notebook\<close>

text \<open>
  The concrete process of the examples is what a logging cell leaves behind, started
  in a new process with an empty disk, when the fit produced booster 5.
\<close>

lemma logging_cell_example:
  "logging_cell notebook_globals (5::nat) (fresh_process Map.empty)
     = Inr (logged_globals, logged_process)"
  by (simp add: logging_cell_def call_XGBClassifier_def notebook_globals_def
      new_XGBClassifier_def fresh_process_def fit_def save_model_def model_path_def
      logged_globals_def logged_process_def)

lemma loader_module_no_XGBClassifier:
  "loader_module_globals ''XGBClassifier'' = None"
  by (simp add: loader_module_globals_def)

lemma load_pyfunc_unbound:
  "g ''XGBClassifier'' = None \<Longrightarrow>
   load_pyfunc g abspath data_path st = Inl (NameError ''XGBClassifier'')"
  by (simp add: load_pyfunc_def call_XGBClassifier_def)

lemma load_context_unbound:
  "g ''model'' = None \<Longrightarrow> load_context g self ctx st = Inl (NameError ''model'')"
  by (simp add: load_context_def Let_def split: prod.splits)

text \<open>
  Where the name \<open>model\<close> is bound to a classifier that existed before the call,
  \<open>load_context\<close> returns: the artifact has gone into that classifier, and \<open>_model\<close>
  is the new one.
\<close>

lemma load_context_bound:
  assumes g: "g ''model'' = Some (Obj m)"
    and m: "heap st m = Some old" "m \<noteq> next_addr st"
    and p: "artifacts ctx ''model'' = Some p"
    and f: "files st p = Some b"
  shows "load_context g self ctx st =
           Inr (self\<lparr>ModelWrapper_model := Some (next_addr st)\<rparr>,
                st\<lparr>heap := (heap st)(next_addr st \<mapsto> None, m \<mapsto> Some b),
                   next_addr := Suc (next_addr st)\<rparr>)"
  using assms
  by (simp add: load_context_def new_XGBClassifier_def load_model_def)

text \<open>
  In a namespace that binds \<open>XGBClassifier\<close> to the class, \<open>_load_pyfunc\<close> does
  return an adapter, and the adapter predicts from the booster stored in the file.
\<close>

lemma load_pyfunc_bound:
  assumes "g ''XGBClassifier'' = Some XGBClassifier_class"
    and "files st (abspath data_path) = Some b"
  shows "case load_pyfunc g abspath data_path st of
           Inl e \<Rightarrow> False
         | Inr (obj, st') \<Rightarrow> MyModel_predict pp obj data st' = pp (Some b) data"
  using assms
  by (simp add: load_pyfunc_def call_XGBClassifier_def new_XGBClassifier_def load_model_def
      MyModel_init_def MyModel_predict_def predict_proba_def)

text \<open>The two \<open>predict\<close> methods have the same body.\<close>

lemma predict_same_body:
  "ModelWrapper_predict pp (ModelWrapper_init a) ctx data st
     = MyModel_predict pp (MyModel_init a) data st"
  by (simp add: ModelWrapper_predict_def ModelWrapper_init_def MyModel_predict_def
      MyModel_init_def)

text \<open>
  C1 does not hold of the code. In every namespace that does not bind the name \<open>model\<close>
  (a process other than the logging one), \<open>load_context\<close> raises \<open>NameError\<close> for it,
  whatever the bundle's artifacts are. In every namespace that does not bind
  \<open>XGBClassifier\<close>, and the namespace of \<open>loader_module.py\<close> is one, \<open>_load_pyfunc\<close>
  raises \<open>NameError\<close> for it, whatever the path and the files are.
\<close>

theorem fresh_process_load_raises:
  "load_context (g(''model'' := None)) self ctx st = Inl (NameError ''model'')
   \<and> load_pyfunc (g(''XGBClassifier'' := None)) abspath data_path st
       = Inl (NameError ''XGBClassifier'')
   \<and> load_pyfunc loader_module_globals abspath data_path st
       = Inl (NameError ''XGBClassifier'')"
  by (simp add: load_context_unbound load_pyfunc_unbound loader_module_no_XGBClassifier)

text \<open>
  C2 does not hold of the artifacts wrapper. Let the name \<open>model\<close> be bound to a
  classifier \<open>m\<close> of the process, which predicts \<open>pp old data\<close>, and let the artifact
  file hold booster \<open>b\<close>. Then \<open>load_context\<close> returns, the artifact is loaded into
  \<open>m\<close>, and \<open>predict\<close> of the loaded wrapper is the prediction of a classifier that
  has no booster, \<open>pp None data\<close>.
\<close>

theorem artifacts_wrapper_predicts_unfitted:
  assumes g: "g ''model'' = Some (Obj m)"
    and m: "heap st m = Some old" "m < next_addr st"
    and p: "artifacts ctx ''model'' = Some p"
    and f: "files st p = Some b"
  shows "predict_proba pp m data st = pp old data
         \<and> (case load_context g self ctx st of
               Inl e \<Rightarrow> False
             | Inr (self', st') \<Rightarrow>
                 ModelWrapper_predict pp self' ctx data st' = pp None data
                 \<and> heap st' m = Some (Some b))"
proof -
  from m have ne: "m \<noteq> next_addr st" by simp
  note lc = load_context_bound [where g=g and m=m and st=st and old=old and ctx=ctx and p=p
      and b=b and self=self, OF g m(1) ne p f]
  show ?thesis
    unfolding lc using ne m(1)
    by (simp add: ModelWrapper_predict_def predict_proba_def)
qed

theorem artifacts_wrapper_predicts_unfitted_witness:
  "predict_proba toy_proba 0 2 logged_process = Inr 7
   \<and> (case load_context logged_globals ModelWrapper_new \<lparr>artifacts = logged_artifacts\<rparr>
              logged_process of
         Inl e \<Rightarrow> False
       | Inr (self', st') \<Rightarrow>
           ModelWrapper_predict toy_proba self' \<lparr>artifacts = logged_artifacts\<rparr> 2 st'
             = Inl NotFittedError
           \<and> heap st' 0 = Some (Some 5))"
  using artifacts_wrapper_predicts_unfitted [where g=logged_globals and m=0
      and st=logged_process and old="Some 5" and ctx="\<lparr>artifacts = logged_artifacts\<rparr>"
      and p="''xgb.model''" and b=5 and self=ModelWrapper_new and pp=toy_proba and data=2]
  by (simp add: logged_globals_def logged_process_def logged_artifacts_def model_path_def
      toy_proba_def predict_proba_def load_context_def new_XGBClassifier_def load_model_def
      ModelWrapper_predict_def ModelWrapper_new_def)

text \<open>
  C3 does not hold of the code. Called in the namespace of \<open>loader_module.py\<close> with
  the path \<open>xgb.model\<close>, \<open>_load_pyfunc\<close> raises \<open>NameError\<close> for \<open>XGBClassifier\<close>, in
  every process and on every disk: it returns no object.
\<close>

theorem loader_module_scenario_raises:
  "load_pyfunc loader_module_globals abspath ''xgb.model'' st
     = Inl (NameError ''XGBClassifier'')
   \<and> isl (load_pyfunc loader_module_globals abspath ''xgb.model'' st)"
  by (simp add: load_pyfunc_unbound loader_module_no_XGBClassifier)

text \<open>
  C4 does not hold of the code. The adapter that holds a reference to a classifier
  \<open>m\<close> predicts what \<open>m\<close> predicts; the deferred loader of \<open>loader_module.py\<close> raises
  \<open>NameError\<close> and yields no predictor to compare it with.
\<close>

theorem construction_strategies_diverge:
  assumes "heap st m = Some bo"
  shows "ModelWrapper_predict pp (ModelWrapper_init m) ctx data st = pp bo data
         \<and> load_pyfunc loader_module_globals abspath data_path st
             = Inl (NameError ''XGBClassifier'')"
  using assms
  by (simp add: ModelWrapper_predict_def ModelWrapper_init_def predict_proba_def
      load_pyfunc_unbound loader_module_no_XGBClassifier)

theorem construction_strategies_diverge_witness:
  "ModelWrapper_predict toy_proba (ModelWrapper_init 0) \<lparr>artifacts = Map.empty\<rparr> 2
       logged_process = Inr 7
   \<and> load_pyfunc loader_module_globals (\<lambda>p. ''/work/'' @ p) model_path logged_process
       = Inl (NameError ''XGBClassifier'')"
  using construction_strategies_diverge [where st=logged_process and m=0
      and bo="Some 5" and pp=toy_proba and ctx="\<lparr>artifacts = Map.empty\<rparr>" and data=2
      and abspath="\<lambda>p. ''/work/'' @ p" and data_path=model_path]
  by (simp add: logged_process_def toy_proba_def)

end
